theory Spec2Isabelle
  imports Main
begin

section \<open>The Mem0 chat assistant (iterations/v3-streamlit-supabase-mem0.py)\<close>

text \<open>
  The program is a Streamlit script: every interaction of the user runs it from top to
  bottom against \<open>st.session_state\<close>, which survives from one run to the next. The
  authentication provider (Supabase), the memory store (Mem0) and the completion service
  (OpenAI) are external. They are parameters of the model: each one is a function of its
  arguments and of an abstract state \<open>'w\<close> of the outside world, and returns either an
  exception or a reply, with the next state of the world. Every call made to them, and
  every report shown by \<open>st.error\<close>, \<open>st.warning\<close> and \<open>st.success\<close>, is
  recorded in a trace in the order it happens. The widgets that only draw (titles, text,
  chat bubbles, the spinner) change nothing and are left out.
\<close>

subsection \<open>Data\<close>

text \<open>
  The exceptions a Python call can raise: \<open>ValueError\<close>, which the start of the script
  catches, and every other subclass of \<open>Exception\<close>. \<open>str_exn\<close> is \<open>str(e)\<close>.
\<close>

datatype exn = ValueError string | OtherException string

fun str_exn :: "exn \<Rightarrow> string" where
  "str_exn (ValueError s) = s"
| "str_exn (OtherException s) = s"

text \<open>
  What ends a run of the script early: an exception nobody catches, \<open>st.rerun()\<close> or
  \<open>st.stop()\<close>. The last two raise Streamlit's script-control exceptions, which derive
  from \<open>BaseException\<close>, so an \<open>except Exception\<close> clause lets them through.
\<close>

datatype signal = Raised exn | RerunSignal | StopSignal

text \<open>A chat message is the dict \<open>{"role": ..., "content": ...}\<close>.\<close>

record message =
  role :: string
  content :: string

text \<open>The provider's user object, of which the script reads \<open>id\<close> and \<open>email\<close>.\<close>

record user =
  uid :: string
  email :: string

text \<open>The provider's reply to a sign-up or sign-in; its \<open>user\<close> may be \<open>None\<close>.\<close>

record auth_response =
  response_user :: "user option"

text \<open>
  \<open>st.session_state\<close>. Section 6 of the script gives \<open>messages\<close>,
  \<open>authenticated\<close> and \<open>user\<close> their defaults before anything reads them, and
  \<open>logout_requested\<close> is only ever read with the default \<open>False\<close>, so an absent key
  is its default here.
\<close>

record session_state =
  messages :: "message list"
  authenticated :: bool
  user :: "user option"
  logout_requested :: bool

definition initial_session :: session_state where
  "initial_session =
     \<lparr>messages = [], authenticated = False, user = None, logout_requested = False\<rparr>"

text \<open>The configuration dict handed to \<open>Memory.from_config\<close>.\<close>

record memory_config =
  llm_provider :: string
  llm_model :: string
  vector_store_provider :: string
  connection_string :: string
  collection_name :: string

text \<open>The environment variables the script reads.\<close>

record environ =
  SUPABASE_URL :: "string option"
  SUPABASE_KEY :: "string option"
  MODEL_CHOICE :: "string option"
  DATABASE_URL :: "string option"

text \<open>The trace: calls to the external services and reports to the user.\<close>

datatype effect =
    AuthSignUp string string string
  | AuthSignIn string string
  | AuthSignOut
  | MemorySearch string string nat
  | MemoryAdd "message list" string
  | MemoryClear string
  | ChatCreate string "message list"
  | StError string
  | StWarning string
  | StSuccess string

text \<open>
  The external services. \<open>memory_search\<close> replies with the \<open>'memory'\<close> texts of
  \<open>relevant_memories["results"]\<close>, in the order of that list; \<open>chat_create\<close> replies
  with \<open>response.choices[0].message.content\<close>. A reply from which the script cannot
  read these raises, like any other failure of the call.
\<close>

record 'w services =
  create_client :: "string \<Rightarrow> string \<Rightarrow> 'w \<Rightarrow> (exn + unit) \<times> 'w"
  new_openai :: "'w \<Rightarrow> (exn + unit) \<times> 'w"
  memory_from_config :: "memory_config \<Rightarrow> 'w \<Rightarrow> (exn + unit) \<times> 'w"
  auth_sign_up :: "string \<Rightarrow> string \<Rightarrow> string \<Rightarrow> 'w \<Rightarrow> (exn + auth_response option) \<times> 'w"
  auth_sign_in :: "string \<Rightarrow> string \<Rightarrow> 'w \<Rightarrow> (exn + auth_response option) \<times> 'w"
  auth_sign_out :: "'w \<Rightarrow> (exn + unit) \<times> 'w"
  memory_search :: "string \<Rightarrow> string \<Rightarrow> nat \<Rightarrow> 'w \<Rightarrow> (exn + string list) \<times> 'w"
  memory_add :: "message list \<Rightarrow> string \<Rightarrow> 'w \<Rightarrow> (exn + unit) \<times> 'w"
  memory_clear :: "string \<Rightarrow> 'w \<Rightarrow> (exn + unit) \<times> 'w"
  chat_create :: "string \<Rightarrow> message list \<Rightarrow> 'w \<Rightarrow> (exn + string) \<times> 'w"

text \<open>
  The state of one browser session of the running process: the session state, the outside
  world, the trace, and whether \<open>st.cache_resource\<close> already holds the OpenAI client and
  the memory store.
\<close>

record 'w machine =
  session :: session_state
  world :: 'w
  trace :: "effect list"
  openai_cached :: bool
  memory_cached :: bool

definition emit :: "effect \<Rightarrow> 'w machine \<Rightarrow> 'w machine" where
  "emit e m = m\<lparr>trace := trace m @ [e]\<rparr>"

text \<open>The widgets' values in one run of the script.\<close>

record widgets =
  login_email :: string
  login_password :: string
  login_button :: bool
  signup_email :: string
  signup_password :: string
  signup_name :: string
  signup_button :: bool
  clear_button :: bool
  user_input :: "string option"

subsection \<open>Authentication functions\<close>

definition sign_up ::
  "'w services \<Rightarrow> string \<Rightarrow> string \<Rightarrow> string \<Rightarrow> 'w machine
     \<Rightarrow> (signal + auth_response option) \<times> 'w machine" where
  "sign_up svc em password full_name m =
     (let m1 = emit (AuthSignUp em password full_name) m;
          (r, w) = auth_sign_up svc em password full_name (world m1);
          m2 = m1\<lparr>world := w\<rparr>
      in case r of
           Inl e \<Rightarrow> (Inr None, emit (StError (''Error signing up: '' @ str_exn e)) m2)
         | Inr response \<Rightarrow>
             (case response of
                None \<Rightarrow> (Inr response, m2)
              | Some resp \<Rightarrow>
                  (case response_user resp of
                     None \<Rightarrow> (Inr response, m2)
                   | Some u \<Rightarrow>
                       (Inl RerunSignal,
                        m2\<lparr>session := (session m2)\<lparr>authenticated := True, user := Some u\<rparr>\<rparr>))))"

definition sign_in ::
  "'w services \<Rightarrow> string \<Rightarrow> string \<Rightarrow> 'w machine
     \<Rightarrow> (signal + auth_response option) \<times> 'w machine" where
  "sign_in svc em password m =
     (let m1 = emit (AuthSignIn em password) m;
          (r, w) = auth_sign_in svc em password (world m1);
          m2 = m1\<lparr>world := w\<rparr>
      in case r of
           Inl e \<Rightarrow> (Inr None, emit (StError (''Error signing in: '' @ str_exn e)) m2)
         | Inr response \<Rightarrow>
             (case response of
                None \<Rightarrow> (Inr response, m2)
              | Some resp \<Rightarrow>
                  (case response_user resp of
                     None \<Rightarrow> (Inr response, m2)
                   | Some u \<Rightarrow>
                       (Inl RerunSignal,
                        m2\<lparr>session := (session m2)\<lparr>authenticated := True, user := Some u\<rparr>\<rparr>))))"

text \<open>\<open>sign_out\<close> catches every exception of the provider and returns nothing.\<close>

definition sign_out :: "'w services \<Rightarrow> 'w machine \<Rightarrow> 'w machine" where
  "sign_out svc m =
     (let m1 = emit AuthSignOut m;
          (r, w) = auth_sign_out svc (world m1);
          m2 = m1\<lparr>world := w\<rparr>
      in case r of
           Inl e \<Rightarrow> emit (StError (''Error signing out: '' @ str_exn e)) m2
         | Inr _ \<Rightarrow>
             m2\<lparr>session := (session m2)
                  \<lparr>authenticated := False, user := None, logout_requested := True\<rparr>\<rparr>)"

subsection \<open>Chat logic\<close>

text \<open>Python's \<open>sep.join(xs)\<close>.\<close>

fun join :: "string \<Rightarrow> string list \<Rightarrow> string" where
  "join sep [] = []"
| "join sep [x] = x"
| "join sep (x # y # ys) = x @ sep @ join sep (y # ys)"

definition newline :: string where
  "newline = [CHR 0x0A]"

definition system_prompt_prefix :: string where
  "system_prompt_prefix =
     ''You are a helpful AI assistant with memory. Answer the question based on the query and user's memories.''
     @ newline @ ''User Memories:'' @ newline"

text \<open>The f-string \<open>f"- {entry['memory']}"\<close> for one search result.\<close>

definition memory_line :: "string \<Rightarrow> string" where
  "memory_line entry = ''- '' @ entry"

definition chat_with_memories ::
  "'w services \<Rightarrow> string \<Rightarrow> string \<Rightarrow> string \<Rightarrow> 'w machine \<Rightarrow> (signal + string) \<times> 'w machine" where
  "chat_with_memories svc model msg user_id m =
     (let m1 = emit (MemorySearch msg user_id 3) m;
          (r1, w1) = memory_search svc msg user_id 3 (world m1);
          m2 = m1\<lparr>world := w1\<rparr>
      in case r1 of
           Inl e \<Rightarrow> (Inl (Raised e), m2)
         | Inr results \<Rightarrow>
             (let memories_str = join newline (map memory_line results);
                  system_prompt = system_prompt_prefix @ memories_str;
                  msgs = [\<lparr>role = ''system'', content = system_prompt\<rparr>,
                          \<lparr>role = ''user'', content = msg\<rparr>];
                  m3 = emit (ChatCreate model msgs) m2;
                  (r2, w2) = chat_create svc model msgs (world m3);
                  m4 = m3\<lparr>world := w2\<rparr>
              in case r2 of
                   Inl e \<Rightarrow> (Inl (Raised e), m4)
                 | Inr assistant_response \<Rightarrow>
                     (let msgs' = msgs @ [\<lparr>role = ''assistant'', content = assistant_response\<rparr>];
                          m5 = emit (MemoryAdd msgs' user_id) m4;
                          (r3, w3) = memory_add svc msgs' user_id (world m5);
                          m6 = m5\<lparr>world := w3\<rparr>
                      in case r3 of
                           Inl e \<Rightarrow> (Inl (Raised e), m6)
                         | Inr _ \<Rightarrow> (Inr assistant_response, m6))))"

text \<open>
  The chat input handler: the body of \<open>if user_input:\<close>. \<open>st.chat_input\<close> gives
  \<open>None\<close> or the submitted text; \<open>None\<close> and the empty string are falsy.
\<close>

definition append_message :: "message \<Rightarrow> 'w machine \<Rightarrow> 'w machine" where
  "append_message x m = m\<lparr>session := (session m)\<lparr>messages := messages (session m) @ [x]\<rparr>\<rparr>"

definition chat_input_handler ::
  "'w services \<Rightarrow> string \<Rightarrow> string \<Rightarrow> string option \<Rightarrow> 'w machine \<Rightarrow> (signal + unit) \<times> 'w machine" where
  "chat_input_handler svc model user_id inp m =
     (case inp of
        None \<Rightarrow> (Inr (), m)
      | Some prompt \<Rightarrow>
          if prompt = [] then (Inr (), m)
          else
            (let m1 = append_message \<lparr>role = ''user'', content = prompt\<rparr> m
             in case chat_with_memories svc model prompt user_id m1 of
                  (Inl s, m2) \<Rightarrow> (Inl s, m2)
                | (Inr ai_response, m2) \<Rightarrow>
                    (Inr (), append_message \<lparr>role = ''assistant'', content = ai_response\<rparr> m2)))"

subsection \<open>Cached resources and the start of the script\<close>

definition model_choice :: "environ \<Rightarrow> string" where
  "model_choice env = (case MODEL_CHOICE env of None \<Rightarrow> ''gpt-4o-mini'' | Some v \<Rightarrow> v)"

definition environ_get :: "string option \<Rightarrow> string \<Rightarrow> string" where
  "environ_get v dflt = (case v of None \<Rightarrow> dflt | Some x \<Rightarrow> x)"

text \<open>
  A function under \<open>st.cache_resource\<close> runs its body when the cache holds no value and
  stores what the body returns; a body that raises stores nothing.
\<close>

definition get_openai_client :: "'w services \<Rightarrow> 'w machine \<Rightarrow> (exn + unit) \<times> 'w machine" where
  "get_openai_client svc m =
     (if openai_cached m then (Inr (), m)
      else
        (let (r, w) = new_openai svc (world m);
             m1 = m\<lparr>world := w\<rparr>
         in case r of
              Inl e \<Rightarrow> (Inl e, m1)
            | Inr _ \<Rightarrow> (Inr (), m1\<lparr>openai_cached := True\<rparr>)))"

definition database_url_missing_report :: string where
  "database_url_missing_report =
     ''DATABASE_URL is missing in the environment. Cannot initialize Mem0.''"

definition database_url_missing :: "'w machine \<Rightarrow> (exn + unit) \<times> 'w machine" where
  "database_url_missing m =
     (Inl (ValueError ''DATABASE_URL must be set in your .env file.''),
      emit (StError database_url_missing_report) m)"

text \<open>The body of \<open>get_memory\<close>; \<open>not database_url\<close> holds of \<open>None\<close> and of \<open>""\<close>.\<close>

definition get_memory_body :: "'w services \<Rightarrow> environ \<Rightarrow> 'w machine \<Rightarrow> (exn + unit) \<times> 'w machine" where
  "get_memory_body svc env m =
     (case DATABASE_URL env of
        None \<Rightarrow> database_url_missing m
      | Some database_url \<Rightarrow>
          if database_url = [] then database_url_missing m
          else
            (let config = \<lparr>llm_provider = ''openai'', llm_model = model_choice env,
                           vector_store_provider = ''supabase'',
                           connection_string = database_url,
                           collection_name = ''memories''\<rparr>;
                 (r, w) = memory_from_config svc config (world m);
                 m1 = m\<lparr>world := w\<rparr>
             in case r of
                  Inl e \<Rightarrow> (Inl e, m1)
                | Inr _ \<Rightarrow> (Inr (), m1)))"

definition get_memory :: "'w services \<Rightarrow> environ \<Rightarrow> 'w machine \<Rightarrow> (exn + unit) \<times> 'w machine" where
  "get_memory svc env m =
     (if memory_cached m then (Inr (), m)
      else
        (case get_memory_body svc env m of
           (Inl e, m1) \<Rightarrow> (Inl e, m1)
         | (Inr _, m1) \<Rightarrow> (Inr (), m1\<lparr>memory_cached := True\<rparr>)))"

text \<open>\<open>except ValueError: st.stop()\<close>; any other exception leaves the script.\<close>

fun except_ValueError :: "exn \<Rightarrow> signal" where
  "except_ValueError (ValueError s) = StopSignal"
| "except_ValueError (OtherException s) = Raised (OtherException s)"

definition get_cached_resources :: "'w services \<Rightarrow> environ \<Rightarrow> 'w machine \<Rightarrow> (signal + unit) \<times> 'w machine" where
  "get_cached_resources svc env m =
     (case get_openai_client svc m of
        (Inl e, m1) \<Rightarrow> (Inl (except_ValueError e), m1)
      | (Inr _, m1) \<Rightarrow>
          (case get_memory svc env m1 of
             (Inl e, m2) \<Rightarrow> (Inl (except_ValueError e), m2)
           | (Inr _, m2) \<Rightarrow> (Inr (), m2)))"

subsection \<open>Sidebar and main interface\<close>

definition login_tab :: "'w services \<Rightarrow> widgets \<Rightarrow> 'w machine \<Rightarrow> (signal + unit) \<times> 'w machine" where
  "login_tab svc wd m =
     (if login_button wd then
        (if login_email wd \<noteq> [] \<and> login_password wd \<noteq> [] then
           (case sign_in svc (login_email wd) (login_password wd) m of
              (Inl s, m1) \<Rightarrow> (Inl s, m1)
            | (Inr _, m1) \<Rightarrow> (Inr (), m1))
         else (Inr (), emit (StWarning ''Please enter both email and password.'') m))
      else (Inr (), m))"

definition signup_tab :: "'w services \<Rightarrow> widgets \<Rightarrow> 'w machine \<Rightarrow> (signal + unit) \<times> 'w machine" where
  "signup_tab svc wd m =
     (if signup_button wd then
        (if signup_email wd \<noteq> [] \<and> signup_password wd \<noteq> [] \<and> signup_name wd \<noteq> [] then
           (case sign_up svc (signup_email wd) (signup_password wd) (signup_name wd) m of
              (Inl s, m1) \<Rightarrow> (Inl s, m1)
            | (Inr response, m1) \<Rightarrow>
                (case response of
                   None \<Rightarrow> (Inr (), m1)
                 | Some resp \<Rightarrow>
                     (case response_user resp of
                        None \<Rightarrow> (Inr (), m1)
                      | Some u \<Rightarrow>
                          (Inr (),
                           emit (StSuccess
                             ''Sign up successful! Please check your email to confirm your account.'')
                             m1))))
         else (Inr (), emit (StWarning ''Please fill in all fields.'') m))
      else (Inr (), m))"

text \<open>The body of \<open>if st.button("Clear All Memories"):\<close>, for the user \<open>u\<close>.\<close>

definition clear_all_memories :: "'w services \<Rightarrow> user \<Rightarrow> 'w machine \<Rightarrow> (signal + unit) \<times> 'w machine" where
  "clear_all_memories svc u m =
     (let m1 = emit (MemoryClear (uid u)) m;
          (r, w) = memory_clear svc (uid u) (world m1);
          m2 = m1\<lparr>world := w\<rparr>
      in case r of
           Inl e \<Rightarrow> (Inl (Raised e), m2)
         | Inr _ \<Rightarrow>
             (Inl RerunSignal,
              emit (StSuccess ''All memories cleared!'')
                (m2\<lparr>session := (session m2)\<lparr>messages := []\<rparr>\<rparr>)))"

definition sidebar :: "'w services \<Rightarrow> widgets \<Rightarrow> 'w machine \<Rightarrow> (signal + unit) \<times> 'w machine" where
  "sidebar svc wd m =
     (if \<not> authenticated (session m) then
        (case login_tab svc wd m of
           (Inl s, m1) \<Rightarrow> (Inl s, m1)
         | (Inr _, m1) \<Rightarrow> signup_tab svc wd m1)
      else
        (case user (session m) of
           None \<Rightarrow> (Inr (), m)
         | Some u \<Rightarrow>
             (let m1 = emit (StSuccess (''Logged in as: '' @ email u)) m
              in if clear_button wd then clear_all_memories svc u m1 else (Inr (), m1))))"

definition main_interface :: "'w services \<Rightarrow> string \<Rightarrow> widgets \<Rightarrow> 'w machine \<Rightarrow> (signal + unit) \<times> 'w machine" where
  "main_interface svc model wd m =
     (if authenticated (session m) then
        (case user (session m) of
           None \<Rightarrow> (Inr (), m)
         | Some u \<Rightarrow> chat_input_handler svc model (uid u) (user_input wd) m)
      else (Inr (), m))"

subsection \<open>One run of the script, and a sequence of interactions\<close>

definition script :: "'w services \<Rightarrow> environ \<Rightarrow> widgets \<Rightarrow> 'w machine \<Rightarrow> (signal + unit) \<times> 'w machine" where
  "script svc env wd m =
     (let (r0, w0) = create_client svc (environ_get (SUPABASE_URL env) [])
                       (environ_get (SUPABASE_KEY env) []) (world m);
          m0 = m\<lparr>world := w0\<rparr>
      in case r0 of
           Inl e \<Rightarrow> (Inl (Raised e), m0)
         | Inr _ \<Rightarrow>
             (case get_cached_resources svc env m0 of
                (Inl s, m1) \<Rightarrow> (Inl s, m1)
              | (Inr _, m1) \<Rightarrow>
                  if logout_requested (session m1)
                  then (Inl RerunSignal,
                        m1\<lparr>session := (session m1)\<lparr>logout_requested := False\<rparr>\<rparr>)
                  else
                    (case sidebar svc wd m1 of
                       (Inl s, m2) \<Rightarrow> (Inl s, m2)
                     | (Inr _, m2) \<Rightarrow> main_interface svc (model_choice env) wd m2)))"

text \<open>
  An interaction is one run of the script with the widgets' values of that moment; a click
  on Logout first runs its \<open>on_click\<close> callback \<open>sign_out\<close>. A run that
  \<open>st.rerun()\<close> asks for is an interaction with no button pressed and no chat input.
  The session state outlives a run however the run ends.
\<close>

definition interaction ::
  "'w services \<Rightarrow> environ \<Rightarrow> bool \<times> widgets \<Rightarrow> 'w machine \<Rightarrow> (signal + unit) \<times> 'w machine" where
  "interaction svc env i m =
     script svc env (snd i) (if fst i then sign_out svc m else m)"

fun run :: "'w services \<Rightarrow> environ \<Rightarrow> (bool \<times> widgets) list \<Rightarrow> 'w machine \<Rightarrow> 'w machine" where
  "run svc env [] m = m"
| "run svc env (i # is) m = run svc env is (snd (interaction svc env i m))"

text \<open>
  A sequence of turns of one user: the chat input handler on each input in order, stopping
  at the first turn that fails. It returns how many turns were completed.
\<close>

fun turns ::
  "'w services \<Rightarrow> string \<Rightarrow> string \<Rightarrow> string list \<Rightarrow> 'w machine \<Rightarrow> (signal + unit) \<times> 'w machine" where
  "turns svc model user_id [] m = (Inr (), m)"
| "turns svc model user_id (x # xs) m =
     (case chat_input_handler svc model user_id (Some x) m of
        (Inl s, m1) \<Rightarrow> (Inl s, m1)
      | (Inr _, m1) \<Rightarrow> turns svc model user_id xs m1)"

section \<open>Notions used to state the properties\<close>

text \<open>
  The list \<open>messages\<close> that lines 139 to 143 of \<open>chat_with_memories\<close> build from
  the search results and the user's message, before the reply is appended to it.
\<close>

definition grounding_request :: "string list \<Rightarrow> string \<Rightarrow> message list" where
  "grounding_request results msg =
     [\<lparr>role = ''system'',
       content = system_prompt_prefix @ join newline (map memory_line results)\<rparr>,
      \<lparr>role = ''user'', content = msg\<rparr>]"

text \<open>
  A concrete user, concrete services and concrete states, on which the theorems are run.
  The sample provider refuses every password but \<open>pw\<close>, and its \<open>sign_out\<close> fails
  on its first call (world \<open>0\<close>) and succeeds afterwards; the sample store fails on the
  query \<open>boom\<close> and knows two memories for the query \<open>color?\<close>; the sample
  completion service fails for the model \<open>bad\<close>.
\<close>

definition alice :: user where
  "alice = \<lparr>uid = ''u1'', email = ''alice@example.com''\<rparr>"

definition demo_services :: "nat services" where
  "demo_services =
     \<lparr>create_client = (\<lambda>url key w. (Inr (), w)),
      new_openai = (\<lambda>w. (Inr (), w)),
      memory_from_config = (\<lambda>c w. (Inr (), w)),
      auth_sign_up = (\<lambda>em pw fn w. (Inr (Some \<lparr>response_user = None\<rparr>), w)),
      auth_sign_in = (\<lambda>em pw w.
        (if pw = ''pw'' then Inr (Some \<lparr>response_user = Some alice\<rparr>)
         else Inl (OtherException ''Invalid login credentials''), w)),
      auth_sign_out = (\<lambda>w. (if w = 0 then Inl (OtherException ''timeout'') else Inr (), Suc w)),
      memory_search = (\<lambda>q u k w.
        (if q = ''boom'' then Inl (OtherException ''store unavailable'')
         else if q = ''color?'' then Inr [''likes blue'', ''is Alice''] else Inr [], w)),
      memory_add = (\<lambda>ms u w. (Inr (), w)),
      memory_clear = (\<lambda>u w. (Inr (), w)),
      chat_create = (\<lambda>md ms w.
        (if md = ''bad'' then Inl (OtherException ''no such model'') else Inr ''Hi'', w))\<rparr>"

definition demo_machine :: "session_state \<Rightarrow> nat \<Rightarrow> nat machine" where
  "demo_machine s w =
     \<lparr>session = s, world = w, trace = [], openai_cached = False, memory_cached = False\<rparr>"

definition alice_session :: session_state where
  "alice_session = initial_session\<lparr>authenticated := True, user := Some alice\<rparr>"

text \<open>
  The transcript of a sequence of completed turns: for each turn, in order, the user's
  message and then the assistant's reply.
\<close>

definition transcript_of :: "string list \<Rightarrow> string list \<Rightarrow> message list" where
  "transcript_of xs replies =
     concat (map (\<lambda>(x, a). [\<lparr>role = ''user'', content = x\<rparr>, \<lparr>role = ''assistant'', content = a\<rparr>])
       (zip xs replies))"



definition no_widgets :: widgets where
  "no_widgets =
     \<lparr>login_email = [], login_password = [], login_button = False,
      signup_email = [], signup_password = [], signup_name = [], signup_button = False,
      clear_button = False, user_input = None\<rparr>"

definition demo_env :: environ where
  "demo_env = \<lparr>SUPABASE_URL = Some ''https://x.supabase.co'', SUPABASE_KEY = Some ''key'',
                MODEL_CHOICE = None, DATABASE_URL = Some ''postgresql://db''\<rparr>"

text \<open>
  A transcript in which no message has the role \<open>system\<close>.
\<close>

definition no_system_message :: "message list \<Rightarrow> bool" where
  "no_system_message ms \<longleftrightarrow> (\<forall>x\<in>set ms. role x \<noteq> ''system'')"

definition demo_interactions :: "(bool \<times> widgets) list" where
  "demo_interactions =
     [(False, no_widgets\<lparr>login_email := ''alice@example.com'', login_password := ''pw'',
                          login_button := True\<rparr>),
      (False, no_widgets\<lparr>user_input := Some ''color?''\<rparr>),
      (True, no_widgets)]"

text \<open>
  A second user, and services whose \<open>clear\<close> fails for that user and succeeds for
  every other one; each call of \<open>clear\<close> moves the outside world on by one.
\<close>

definition bob :: user where
  "bob = \<lparr>uid = ''u2'', email = ''bob@example.com''\<rparr>"

definition clear_services :: "nat services" where
  "clear_services =
     demo_services\<lparr>memory_clear := (\<lambda>u w.
       (if u = ''u2'' then Inl (OtherException ''store unavailable'') else Inr (), Suc w))\<rparr>"

definition with_message :: "session_state \<Rightarrow> session_state" where
  "with_message s = s\<lparr>messages := [\<lparr>role = ''user'', content = ''hi''\<rparr>]\<rparr>"

section \<open>Properties\<close>

text \<open>
  \<open>chat_with_memories\<close> never touches the session state, and each way it can end fixes
  the trace it leaves.
\<close>

lemma cwm_session: "session (snd (chat_with_memories svc model msg user_id m)) = session m"
  by (simp add: chat_with_memories_def emit_def Let_def split: prod.splits sum.splits)

lemma cwm_caches:
  "openai_cached (snd (chat_with_memories svc model msg user_id m)) = openai_cached m"
  "memory_cached (snd (chat_with_memories svc model msg user_id m)) = memory_cached m"
  by (simp_all add: chat_with_memories_def emit_def Let_def split: prod.splits sum.splits)

lemma cwm_search_fails:
  "memory_search svc msg user_id 3 (world m) = (Inl e, w1) \<Longrightarrow>
   chat_with_memories svc model msg user_id m =
     (Inl (Raised e), m\<lparr>trace := trace m @ [MemorySearch msg user_id 3], world := w1\<rparr>)"
  by (simp add: chat_with_memories_def emit_def Let_def)

lemma cwm_create_fails:
  "memory_search svc msg user_id 3 (world m) = (Inr results, w1) \<Longrightarrow>
   chat_create svc model (grounding_request results msg) w1 = (Inl e, w2) \<Longrightarrow>
   chat_with_memories svc model msg user_id m =
     (Inl (Raised e),
      m\<lparr>trace := trace m @ [MemorySearch msg user_id 3,
                              ChatCreate model (grounding_request results msg)],
        world := w2\<rparr>)"
  by (simp add: chat_with_memories_def emit_def Let_def grounding_request_def)

lemma cwm_add:
  "memory_search svc msg user_id 3 (world m) = (Inr results, w1) \<Longrightarrow>
   chat_create svc model (grounding_request results msg) w1 = (Inr reply, w2) \<Longrightarrow>
   memory_add svc (grounding_request results msg @ [\<lparr>role = ''assistant'', content = reply\<rparr>])
     user_id w2 = (r3, w3) \<Longrightarrow>
   chat_with_memories svc model msg user_id m =
     (case r3 of Inl e \<Rightarrow> Inl (Raised e) | Inr _ \<Rightarrow> Inr reply,
      m\<lparr>trace := trace m @ [MemorySearch msg user_id 3,
                              ChatCreate model (grounding_request results msg),
                              MemoryAdd (grounding_request results msg
                                         @ [\<lparr>role = ''assistant'', content = reply\<rparr>]) user_id],
        world := w3\<rparr>)"
  by (simp add: chat_with_memories_def emit_def Let_def grounding_request_def split: sum.splits)

lemma handler_ok:
  "chat_input_handler svc model user_id (Some x) m = (Inr (), m') \<Longrightarrow> x \<noteq> [] \<Longrightarrow>
   \<exists>reply. messages (session m') = messages (session m) @
       [\<lparr>role = ''user'', content = x\<rparr>, \<lparr>role = ''assistant'', content = reply\<rparr>]"
  using cwm_session [of svc model x user_id "append_message \<lparr>role = ''user'', content = x\<rparr> m"]
  by (auto simp: chat_input_handler_def append_message_def Let_def split: if_splits prod.splits sum.splits)

lemma turns_transcript:
  "turns svc model user_id xs m = (Inr (), m') \<Longrightarrow> \<forall>x\<in>set xs. x \<noteq> [] \<Longrightarrow>
   \<exists>replies. length replies = length xs \<and>
     messages (session m') = messages (session m) @ transcript_of xs replies"
proof (induction xs arbitrary: m)
  case Nil
  then show ?case by (simp add: transcript_of_def)
next
  case (Cons x xs)
  from Cons.prems(1) obtain m1 where
    h: "chat_input_handler svc model user_id (Some x) m = (Inr (), m1)"
    and t: "turns svc model user_id xs m1 = (Inr (), m')"
    by (auto split: prod.splits sum.splits)
  from Cons.prems(2) have x: "x \<noteq> []" and xs: "\<forall>y\<in>set xs. y \<noteq> []" by simp_all
  from handler_ok [OF h x] obtain reply where
    r: "messages (session m1) = messages (session m) @
       [\<lparr>role = ''user'', content = x\<rparr>, \<lparr>role = ''assistant'', content = reply\<rparr>]" by blast
  from Cons.IH [OF t xs] obtain replies where
    l: "length replies = length xs" and
    ms: "messages (session m') = messages (session m1) @ transcript_of xs replies" by blast
  have "length (reply # replies) = length (x # xs)" using l by simp
  moreover have "messages (session m') = messages (session m) @ transcript_of (x # xs) (reply # replies)"
    using ms r by (simp add: transcript_of_def)
  ultimately show ?case by blast
qed

lemma length_transcript_of:
  "length xs = length replies \<Longrightarrow> length (transcript_of xs replies) = 2 * length xs"
  by (induction xs replies rule: list_induct2) (simp_all add: transcript_of_def)




lemma cwm_cases:
  obtains (search_fails) e w1 where
      "memory_search svc msg user_id 3 (world m) = (Inl e, w1)"
  | (create_fails) results w1 e w2 where
      "memory_search svc msg user_id 3 (world m) = (Inr results, w1)"
      "chat_create svc model (grounding_request results msg) w1 = (Inl e, w2)"
  | (add) results w1 reply w2 r3 w3 where
      "memory_search svc msg user_id 3 (world m) = (Inr results, w1)"
      "chat_create svc model (grounding_request results msg) w1 = (Inr reply, w2)"
      "memory_add svc (grounding_request results msg @ [\<lparr>role = ''assistant'', content = reply\<rparr>])
         user_id w2 = (r3, w3)"
proof (cases "memory_search svc msg user_id 3 (world m)")
  case (Pair r1 w1)
  show ?thesis
  proof (cases r1)
    case (Inl e)
    then show ?thesis using Pair search_fails by simp
  next
    case (Inr results)
    show ?thesis
    proof (cases "chat_create svc model (grounding_request results msg) w1")
      case p2: (Pair r2 w2)
      show ?thesis
      proof (cases r2)
        case (Inl e)
        then show ?thesis using Pair Inr p2 create_fails by simp
      next
        case i2: (Inr reply)
        obtain r3 w3 where "memory_add svc (grounding_request results msg @ [\<lparr>role = ''assistant'', content = reply\<rparr>])
         user_id w2 = (r3, w3)" by (cases "memory_add svc (grounding_request results msg @ [\<lparr>role = ''assistant'', content = reply\<rparr>])
         user_id w2") blast
        then show ?thesis using Pair Inr p2 i2 add by simp
      qed
    qed
  qed
qed

lemma handler_unfold:
  "x \<noteq> [] \<Longrightarrow> chat_with_memories svc model x user_id (append_message \<lparr>role = ''user'', content = x\<rparr> m) = (r, m2) \<Longrightarrow>
   chat_input_handler svc model user_id (Some x) m =
     (case r of Inl s \<Rightarrow> (Inl s, m2)
      | Inr a \<Rightarrow> (Inr (), append_message \<lparr>role = ''assistant'', content = a\<rparr> m2))"
  by (simp add: chat_input_handler_def Let_def split: sum.splits)


lemma world_append_message [simp]: "world (append_message x m) = world m"
  and trace_append_message [simp]: "trace (append_message x m) = trace m"
  by (simp_all add: append_message_def)


lemma demo_simps:
  "memory_search demo_services q u k w =
     (if q = ''boom'' then Inl (OtherException ''store unavailable'')
      else if q = ''color?'' then Inr [''likes blue'', ''is Alice''] else Inr [], w)"
  "chat_create demo_services md ms w =
     (if md = ''bad'' then Inl (OtherException ''no such model'') else Inr ''Hi'', w)"
  "memory_add demo_services ms u w = (Inr (), w)"
  "memory_clear demo_services u w = (Inr (), w)"
  "auth_sign_out demo_services w =
     (if w = 0 then Inl (OtherException ''timeout'') else Inr (), Suc w)"
  "auth_sign_in demo_services em pw w =
     (if pw = ''pw'' then Inr (Some \<lparr>response_user = Some alice\<rparr>)
      else Inl (OtherException ''Invalid login credentials''), w)"
  "auth_sign_up demo_services em pw fn w = (Inr (Some \<lparr>response_user = None\<rparr>), w)"
  "create_client demo_services url key w = (Inr (), w)"
  "new_openai demo_services w = (Inr (), w)"
  "memory_from_config demo_services c w = (Inr (), w)"
  by (simp_all add: demo_services_def)

lemmas demo_state_simps = demo_machine_def alice_session_def initial_session_def alice_def
  no_widgets_def

lemmas turn_simps = main_interface_def chat_input_handler_def chat_with_memories_def
  append_message_def emit_def Let_def

text \<open>
  Claim C1, as amended. The handler appends the user's message to
  \<open>st.session_state.messages\<close> before it calls \<open>chat_with_memories\<close> and nothing
  catches an exception of that call. So a turn in which the search, the completion or the
  add raises leaves the transcript as it was before the turn followed by exactly the user's
  message of that turn; no assistant message is appended.
\<close>

theorem failed_turn_keeps_user_message:
  "chat_input_handler svc model user_id (Some x) m = (Inl s, m') \<Longrightarrow>
   messages (session m') = messages (session m) @ [\<lparr>role = ''user'', content = x\<rparr>]"
  using cwm_session [of svc model x user_id "append_message \<lparr>role = ''user'', content = x\<rparr> m"]
  by (auto simp: chat_input_handler_def append_message_def Let_def split: if_splits prod.splits sum.splits)

text \<open>
  Claim C1, witness: the completion fails for the model \<open>bad\<close>, and the transcript
  has grown by the user's message.
\<close>

theorem failed_turn_keeps_user_message_witness:
  "chat_input_handler demo_services ''bad'' ''u1'' (Some ''hello'') (demo_machine alice_session 0)
     = (Inl (Raised (OtherException ''no such model'')),
        snd (chat_input_handler demo_services ''bad'' ''u1'' (Some ''hello'') (demo_machine alice_session 0)))
   \<and> messages (session (snd (chat_input_handler demo_services ''bad'' ''u1'' (Some ''hello'')
          (demo_machine alice_session 0))))
       = messages (session (demo_machine alice_session 0)) @ [\<lparr>role = ''user'', content = ''hello''\<rparr>]"
proof -
  have h: "chat_input_handler demo_services ''bad'' ''u1'' (Some ''hello'') (demo_machine alice_session 0)
     = (Inl (Raised (OtherException ''no such model'')),
        snd (chat_input_handler demo_services ''bad'' ''u1'' (Some ''hello'') (demo_machine alice_session 0)))"
    by (simp add: turn_simps demo_simps demo_state_simps)
  show ?thesis using h failed_turn_keeps_user_message [OF h] by simp
qed




text \<open>
  Claim C1, counterexample to the claim as stated: the search raises, the turn fails, and the
  transcript is not what it was before the turn.
\<close>

theorem failed_turn_counterexample:
  "fst (chat_input_handler demo_services ''gpt-4o-mini'' ''u1'' (Some ''boom'') (demo_machine alice_session 0))
     = Inl (Raised (OtherException ''store unavailable'')) \<and>
   messages (session (snd (chat_input_handler demo_services ''gpt-4o-mini'' ''u1'' (Some ''boom'')
       (demo_machine alice_session 0)))) \<noteq> messages (session (demo_machine alice_session 0))"
  by (simp add: turn_simps demo_simps demo_state_simps)

text \<open>
  Claim C3. After N successful turns from an empty transcript, the transcript holds exactly
  2N messages in chronological order: turn \<open>i\<close> contributes the user's message at
  position \<open>2i\<close> and then the assistant's reply at position \<open>2i + 1\<close>.
\<close>

theorem transcript_after_successful_turns:
  assumes "turns svc model user_id xs m = (Inr (), m')"
    and "\<forall>x\<in>set xs. x \<noteq> []"
    and "messages (session m) = []"
  shows "length (messages (session m')) = 2 * length xs \<and>
     (\<exists>replies. length replies = length xs \<and>
        messages (session m') = transcript_of xs replies) \<and>
     (\<forall>i<length xs.
        messages (session m') ! (2 * i) = \<lparr>role = ''user'', content = xs ! i\<rparr> \<and>
        role (messages (session m') ! (2 * i + 1)) = ''assistant'')"
proof -
  from turns_transcript [OF assms(1,2)] assms(3) obtain replies where
    l: "length replies = length xs" and ms: "messages (session m') = transcript_of xs replies"
    by auto
  have nth: "\<forall>i<length xs.
        transcript_of xs replies ! (2 * i) = \<lparr>role = ''user'', content = xs ! i\<rparr> \<and>
        role (transcript_of xs replies ! (2 * i + 1)) = ''assistant''"
    using l [symmetric]
  proof (induction xs replies rule: list_induct2)
    case Nil
    then show ?case by simp
  next
    case (Cons x xs a as)
    show ?case
    proof (intro allI impI)
      fix i assume i: "i < length (x # xs)"
      show "transcript_of (x # xs) (a # as) ! (2 * i) = \<lparr>role = ''user'', content = (x # xs) ! i\<rparr> \<and>
        role (transcript_of (x # xs) (a # as) ! (2 * i + 1)) = ''assistant''"
      proof (cases i)
        case 0
        then show ?thesis by (simp add: transcript_of_def)
      next
        case (Suc j)
        then have j: "j < length xs" using i by simp
        have "transcript_of (x # xs) (a # as) =
            \<lparr>role = ''user'', content = x\<rparr> # \<lparr>role = ''assistant'', content = a\<rparr> # transcript_of xs as"
          by (simp add: transcript_of_def)
        then show ?thesis using Suc Cons.IH j by simp
      qed
    qed
  qed
  show ?thesis using l ms nth length_transcript_of [of xs replies] by auto
qed

text \<open>
  Claim C3, witness: two successful turns of the sample user.
\<close>

theorem transcript_after_successful_turns_witness:
  "turns demo_services ''gpt-4o-mini'' ''u1'' [''hi'', ''color?''] (demo_machine alice_session 0)
     = (Inr (), snd (turns demo_services ''gpt-4o-mini'' ''u1'' [''hi'', ''color?'']
                      (demo_machine alice_session 0))) \<and>
   ''hi'' \<noteq> [] \<and> ''color?'' \<noteq> [] \<and>
   messages (session (demo_machine alice_session 0)) = [] \<and>
   length (messages (session (snd (turns demo_services ''gpt-4o-mini'' ''u1'' [''hi'', ''color?'']
                      (demo_machine alice_session 0))))) = 2 * length [''hi'', ''color?'']"
proof -
  let ?m = "demo_machine alice_session 0"
  have h1: "turns demo_services ''gpt-4o-mini'' ''u1'' [''hi'', ''color?''] ?m
     = (Inr (), snd (turns demo_services ''gpt-4o-mini'' ''u1'' [''hi'', ''color?''] ?m))"
    by (simp add: turn_simps demo_simps demo_state_simps)
  have h2: "\<forall>x\<in>set [''hi'', ''color?'']. x \<noteq> []" by simp
  have h3: "messages (session ?m) = []" by (simp add: demo_state_simps)
  from transcript_after_successful_turns [OF h1 h2 h3] h1 h3 show ?thesis by simp
qed

text \<open>
  Claim C6. When the search returns no memory the turn goes on: joining the empty list
  gives the empty string, the grounding message is the fixed prefix alone, the completion
  request is made, and the turn returns the reply whenever the completion and the add
  succeed.
\<close>

theorem empty_search_still_completes:
  assumes "memory_search svc msg user_id 3 (world m) = (Inr [], w1)"
    and "chat_with_memories svc model msg user_id m = (r, m')"
  shows "join newline (map memory_line []) = [] \<and>
     (\<exists>rest. trace m' = trace m @
        [MemorySearch msg user_id 3,
         ChatCreate model [\<lparr>role = ''system'', content = system_prompt_prefix\<rparr>,
                           \<lparr>role = ''user'', content = msg\<rparr>]] @ rest) \<and>
     (\<forall>reply w2 w3.
        chat_create svc model [\<lparr>role = ''system'', content = system_prompt_prefix\<rparr>,
                               \<lparr>role = ''user'', content = msg\<rparr>] w1 = (Inr reply, w2) \<longrightarrow>
        memory_add svc [\<lparr>role = ''system'', content = system_prompt_prefix\<rparr>,
                        \<lparr>role = ''user'', content = msg\<rparr>,
                        \<lparr>role = ''assistant'', content = reply\<rparr>] user_id w2 = (Inr (), w3) \<longrightarrow>
        r = Inr reply)"
proof -
  have g: "grounding_request [] msg = [\<lparr>role = ''system'', content = system_prompt_prefix\<rparr>,
                           \<lparr>role = ''user'', content = msg\<rparr>]"
    by (simp add: grounding_request_def)
  show ?thesis
  proof (cases rule: cwm_cases [where svc = svc and msg = msg and user_id = user_id and m = m and model = model])
    case (search_fails e w1)
    then show ?thesis using assms by simp
  next
    case (create_fails results w1' e w2)
    then show ?thesis using cwm_create_fails [OF create_fails] assms g by auto
  next
    case (add results w1' reply w2 r3 w3)
    then show ?thesis using cwm_add [OF add] assms g by (auto split: sum.splits)
  qed
qed

text \<open>
  Claim C6, witness: a turn of the sample user whose search returns nothing.
\<close>

theorem empty_search_still_completes_witness:
  "memory_search demo_services ''hi'' ''u1'' 3 (world (demo_machine alice_session 0)) = (Inr [], 0) \<and>
   fst (chat_with_memories demo_services ''gpt-4o-mini'' ''hi'' ''u1'' (demo_machine alice_session 0))
     = Inr ''Hi'' \<and>
   (\<exists>rest. trace (snd (chat_with_memories demo_services ''gpt-4o-mini'' ''hi'' ''u1''
                (demo_machine alice_session 0))) = trace (demo_machine alice_session 0) @
        [MemorySearch ''hi'' ''u1'' 3,
         ChatCreate ''gpt-4o-mini'' [\<lparr>role = ''system'', content = system_prompt_prefix\<rparr>,
                           \<lparr>role = ''user'', content = ''hi''\<rparr>]] @ rest)"
proof -
  let ?m = "demo_machine alice_session 0"
  have h1: "memory_search demo_services ''hi'' ''u1'' 3 (world ?m) = (Inr [], 0)"
    by (simp add: demo_simps demo_state_simps)
  have h2: "chat_with_memories demo_services ''gpt-4o-mini'' ''hi'' ''u1'' ?m
      = (Inr ''Hi'', snd (chat_with_memories demo_services ''gpt-4o-mini'' ''hi'' ''u1'' ?m))"
    by (simp add: turn_simps demo_simps demo_state_simps)
  from empty_search_still_completes [OF h1 h2] h1 h2 show ?thesis by (metis fst_conv)
qed

lemmas auth_simps = sign_up_def sign_in_def sign_out_def emit_def Let_def

text \<open>
  Claim C7. \<open>sign_out\<close> is idempotent on the session. It catches every exception of
  the provider, so it always returns. Called in an Anonymous session it leaves
  \<open>authenticated\<close>, \<open>user\<close> and the transcript as they were, whatever the
  provider does, and so does a second call after it. When the provider's call succeeds,
  no error is reported, the session is Anonymous with its transcript kept, and a second
  \<open>sign_out\<close> right after it leaves the whole session state as the first call left
  it, whatever the provider does then. (A successful call also sets the flag
  \<open>logout_requested\<close>, which the next run of the script resets.)
\<close>

theorem sign_out_idempotent:
  "(\<not> authenticated (session m) \<and> user (session m) = None \<longrightarrow>
      authenticated (session (sign_out svc m)) = authenticated (session m) \<and>
      user (session (sign_out svc m)) = user (session m) \<and>
      messages (session (sign_out svc m)) = messages (session m) \<and>
      authenticated (session (sign_out svc (sign_out svc m))) =
        authenticated (session (sign_out svc m)) \<and>
      user (session (sign_out svc (sign_out svc m))) = user (session (sign_out svc m)) \<and>
      messages (session (sign_out svc (sign_out svc m))) =
        messages (session (sign_out svc m))) \<and>
   (fst (auth_sign_out svc (world m)) = Inr () \<longrightarrow>
      trace (sign_out svc m) = trace m @ [AuthSignOut] \<and>
      world (sign_out svc m) = snd (auth_sign_out svc (world m)) \<and>
      session (sign_out svc m) =
        (session m)\<lparr>authenticated := False, user := None, logout_requested := True\<rparr> \<and>
      messages (session (sign_out svc m)) = messages (session m) \<and>
      session (sign_out svc (sign_out svc m)) = session (sign_out svc m))"
  by (auto simp: auth_simps split: prod.splits sum.splits)

text \<open>
  Claim C7, witness: \<open>sign_out\<close> twice in an Anonymous session and twice in a session
  of the sample user, with a provider that succeeds; and once in an Anonymous session with
  a provider that fails.
\<close>

theorem sign_out_idempotent_witness:
  "\<not> authenticated (session (demo_machine initial_session 1)) \<and>
   user (session (demo_machine initial_session 1)) = None \<and>
   fst (auth_sign_out demo_services (world (demo_machine initial_session 1))) = Inr () \<and>
   fst (auth_sign_out demo_services (world (demo_machine alice_session 1))) = Inr () \<and>
   authenticated (session (sign_out demo_services (demo_machine initial_session 1))) = False \<and>
   user (session (sign_out demo_services (demo_machine initial_session 1))) = None \<and>
   messages (session (sign_out demo_services (demo_machine initial_session 1)))
     = messages (session (demo_machine initial_session 1)) \<and>
   trace (sign_out demo_services (demo_machine initial_session 1)) = [AuthSignOut] \<and>
   session (sign_out demo_services (sign_out demo_services (demo_machine initial_session 1)))
     = session (sign_out demo_services (demo_machine initial_session 1)) \<and>
   session (sign_out demo_services (sign_out demo_services (demo_machine alice_session 1)))
     = session (sign_out demo_services (demo_machine alice_session 1)) \<and>
   user (session (sign_out demo_services (demo_machine alice_session 1))) = None \<and>
   authenticated (session (sign_out demo_services (demo_machine initial_session 0))) = False \<and>
   user (session (sign_out demo_services (demo_machine initial_session 0))) = None"
proof -
  let ?m = "demo_machine initial_session 1"
  let ?a = "demo_machine alice_session 1"
  let ?f = "demo_machine initial_session 0"
  have h1: "\<not> authenticated (session ?m) \<and> user (session ?m) = None"
    and h1': "\<not> authenticated (session ?f) \<and> user (session ?f) = None"
    by (simp_all add: demo_state_simps)
  have h2: "fst (auth_sign_out demo_services (world ?m)) = Inr ()"
    and h3: "fst (auth_sign_out demo_services (world ?a)) = Inr ()"
    by (simp_all add: demo_simps demo_state_simps)
  have t: "trace ?m = []" by (simp add: demo_state_simps)
  from sign_out_idempotent [of ?m demo_services] sign_out_idempotent [of ?a demo_services]
    sign_out_idempotent [of ?f demo_services] h1 h1' h2 h3 t
  show ?thesis by simp
qed

text \<open>
  Claim C9. When the provider's call raises, \<open>sign_up\<close>, \<open>sign_in\<close> and
  \<open>sign_out\<close> leave the session state, and so the flag and the bound user, as it
  was. In every case the flag and the user are updated together or not at all.
\<close>

theorem auth_failure_leaves_session:
  "(\<forall>e. fst (auth_sign_up svc em pw fn (world m)) = Inl e \<longrightarrow>
      session (snd (sign_up svc em pw fn m)) = session m) \<and>
   (\<forall>e. fst (auth_sign_in svc em pw (world m)) = Inl e \<longrightarrow>
      session (snd (sign_in svc em pw m)) = session m) \<and>
   (\<forall>e. fst (auth_sign_out svc (world m)) = Inl e \<longrightarrow>
      session (sign_out svc m) = session m) \<and>
   (session (snd (sign_up svc em pw fn m)) = session m \<or>
    (\<exists>u. session (snd (sign_up svc em pw fn m)) = (session m)\<lparr>authenticated := True, user := Some u\<rparr>)) \<and>
   (session (snd (sign_in svc em pw m)) = session m \<or>
    (\<exists>u. session (snd (sign_in svc em pw m)) = (session m)\<lparr>authenticated := True, user := Some u\<rparr>)) \<and>
   (session (sign_out svc m) = session m \<or>
    session (sign_out svc m) =
      (session m)\<lparr>authenticated := False, user := None, logout_requested := True\<rparr>)"
  by (auto simp: auth_simps split: prod.splits sum.splits option.splits)

text \<open>
  Claim C9, witness: a refused sign-in and a failed sign-out.
\<close>

theorem auth_failure_leaves_session_witness:
  "fst (auth_sign_in demo_services ''alice@example.com'' ''wrong'' (world (demo_machine initial_session 0)))
     = Inl (OtherException ''Invalid login credentials'') \<and>
   session (snd (sign_in demo_services ''alice@example.com'' ''wrong'' (demo_machine initial_session 0)))
     = session (demo_machine initial_session 0) \<and>
   fst (auth_sign_out demo_services (world (demo_machine alice_session 0)))
     = Inl (OtherException ''timeout'') \<and>
   session (sign_out demo_services (demo_machine alice_session 0)) = session (demo_machine alice_session 0)"
proof -
  let ?m = "demo_machine initial_session 0"
  let ?a = "demo_machine alice_session 0"
  have h1: "fst (auth_sign_in demo_services ''alice@example.com'' ''wrong'' (world ?m))
     = Inl (OtherException ''Invalid login credentials'')"
    by (simp add: demo_simps demo_state_simps)
  have h2: "fst (auth_sign_out demo_services (world ?a)) = Inl (OtherException ''timeout'')"
    by (simp add: demo_simps demo_state_simps)
  from auth_failure_leaves_session [of demo_services "''alice@example.com''" "''wrong''" _ ?m]
    auth_failure_leaves_session [of demo_services _ _ _ ?a] h1 h2
  show ?thesis by blast
qed

lemma sidebar_authenticated:
  "authenticated (session m) \<Longrightarrow> user (session m) = Some u \<Longrightarrow> clear_button wd \<Longrightarrow>
   sidebar svc wd m = clear_all_memories svc u (emit (StSuccess (''Logged in as: '' @ email u)) m)"
  by (simp add: sidebar_def Let_def)

lemma clear_all_memories_fails:
  "memory_clear svc (uid u) (world m) = (Inl e, w) \<Longrightarrow>
   clear_all_memories svc u m =
     (Inl (Raised e), m\<lparr>trace := trace m @ [MemoryClear (uid u)], world := w\<rparr>)"
  by (simp add: clear_all_memories_def emit_def Let_def)

lemma clear_all_memories_ok:
  "memory_clear svc (uid u) (world m) = (Inr x, w) \<Longrightarrow>
   clear_all_memories svc u m =
     (Inl RerunSignal,
      m\<lparr>trace := trace m @ [MemoryClear (uid u), StSuccess ''All memories cleared!''],
        world := w, session := (session m)\<lparr>messages := []\<rparr>\<rparr>)"
  by (simp add: clear_all_memories_def emit_def Let_def)

lemma sign_in_frame:
  "sign_in svc em pw m = (r, m') \<Longrightarrow>
   messages (session m') = messages (session m) \<and> memory_cached m' = memory_cached m \<and>
   (MemoryClear v \<in> set (trace m') \<longrightarrow> MemoryClear v \<in> set (trace m))"
  by (auto simp: sign_in_def emit_def Let_def split: prod.splits sum.splits option.splits)

lemma sign_up_frame:
  "sign_up svc em pw fn m = (r, m') \<Longrightarrow>
   messages (session m') = messages (session m) \<and> memory_cached m' = memory_cached m \<and>
   (MemoryClear v \<in> set (trace m') \<longrightarrow> MemoryClear v \<in> set (trace m))"
  by (auto simp: sign_up_def emit_def Let_def split: prod.splits sum.splits option.splits)

lemma sign_out_frame:
  "messages (session (sign_out svc m)) = messages (session m) \<and>
   memory_cached (sign_out svc m) = memory_cached m"
  by (auto simp: sign_out_def emit_def Let_def split: prod.splits sum.splits)

lemma login_tab_frame:
  "login_tab svc wd m = (r, m') \<Longrightarrow>
   messages (session m') = messages (session m) \<and> memory_cached m' = memory_cached m \<and>
   (MemoryClear v \<in> set (trace m') \<longrightarrow> MemoryClear v \<in> set (trace m))"
  by (auto simp: login_tab_def emit_def split: if_splits prod.splits sum.splits
      dest: sign_in_frame [where v = v])

lemma signup_tab_frame:
  "signup_tab svc wd m = (r, m') \<Longrightarrow>
   messages (session m') = messages (session m) \<and> memory_cached m' = memory_cached m \<and>
   (MemoryClear v \<in> set (trace m') \<longrightarrow> MemoryClear v \<in> set (trace m))"
  by (auto simp: signup_tab_def emit_def split: if_splits prod.splits sum.splits option.splits
      dest: sign_up_frame [where v = v])

lemma sidebar_anonymous:
  assumes "\<not> (authenticated (session m) \<and> user (session m) \<noteq> None)"
    and "sidebar svc wd m = (r, m')"
  shows "messages (session m') = messages (session m) \<and>
     (MemoryClear v \<in> set (trace m') \<longrightarrow> MemoryClear v \<in> set (trace m))"
proof (cases "authenticated (session m)")
  case True
  then show ?thesis using assms by (simp add: sidebar_def)
next
  case False
  obtain r1 m1 where l: "login_tab svc wd m = (r1, m1)" by (cases "login_tab svc wd m") blast
  show ?thesis
  proof (cases r1)
    case (Inl s)
    then show ?thesis using False l assms(2) login_tab_frame [OF l, of v] by (simp add: sidebar_def)
  next
    case (Inr x)
    then have "signup_tab svc wd m1 = (r, m')" using False l assms(2) by (simp add: sidebar_def)
    from signup_tab_frame [OF this, of v] login_tab_frame [OF l, of v] show ?thesis by simp
  qed
qed

lemma sidebar_ignores_memory_clear:
  "\<not> (authenticated (session m) \<and> user (session m) \<noteq> None) \<Longrightarrow>
   sidebar (svc\<lparr>memory_clear := f\<rparr>) wd m = sidebar svc wd m"
proof -
  have si: "sign_in (svc\<lparr>memory_clear := f\<rparr>) em pw n = sign_in svc em pw n" for em pw n
    by (simp add: sign_in_def)
  have su: "sign_up (svc\<lparr>memory_clear := f\<rparr>) em pw fn n = sign_up svc em pw fn n" for em pw fn n
    by (simp add: sign_up_def)
  have lt: "login_tab (svc\<lparr>memory_clear := f\<rparr>) wd n = login_tab svc wd n" for n
    by (simp add: login_tab_def si)
  have st: "signup_tab (svc\<lparr>memory_clear := f\<rparr>) wd n = signup_tab svc wd n" for n
    by (simp add: signup_tab_def su)
  assume "\<not> (authenticated (session m) \<and> user (session m) \<noteq> None)"
  then show ?thesis
    by (cases "authenticated (session m)")
       (simp_all add: sidebar_def lt st split: prod.splits sum.splits)
qed

text \<open>
  Claim C8. With an authenticated session bound to the user \<open>u\<close>, a click on Clear All
  Memories calls the store's \<open>clear\<close> once, for the id of \<open>u\<close>, in the world as
  the click finds it, and the world after the click is the one that call leaves. When the
  call returns, the transcript is emptied and nothing else of the session state changes;
  when it raises, the exception leaves the script and the session state, transcript
  included, is as before. In both cases \<open>authenticated\<close> and \<open>user\<close> are
  unchanged. Without the click nothing but the login banner happens. In any other
  session the sidebar does not depend on the store's \<open>clear\<close> at all, logs no call
  of it and leaves the transcript alone.
\<close>

theorem clear_memories_effect:
  "(authenticated (session m) \<and> user (session m) = Some u \<and> clear_button wd \<longrightarrow>
      (\<forall>x w. memory_clear svc (uid u) (world m) = (Inr x, w) \<longrightarrow>
         sidebar svc wd m =
           (Inl RerunSignal,
            m\<lparr>trace := trace m @ [StSuccess (''Logged in as: '' @ email u),
                                    MemoryClear (uid u),
                                    StSuccess ''All memories cleared!''],
              world := w,
              session := (session m)\<lparr>messages := []\<rparr>\<rparr>)) \<and>
      (\<forall>e w. memory_clear svc (uid u) (world m) = (Inl e, w) \<longrightarrow>
         sidebar svc wd m =
           (Inl (Raised e),
            m\<lparr>trace := trace m @ [StSuccess (''Logged in as: '' @ email u),
                                    MemoryClear (uid u)],
              world := w\<rparr>)) \<and>
      world (snd (sidebar svc wd m)) = snd (memory_clear svc (uid u) (world m)) \<and>
      authenticated (session (snd (sidebar svc wd m))) = authenticated (session m) \<and>
      user (session (snd (sidebar svc wd m))) = user (session m)) \<and>
   (authenticated (session m) \<and> user (session m) = Some u \<and> \<not> clear_button wd \<longrightarrow>
      sidebar svc wd m = (Inr (), m\<lparr>trace := trace m @ [StSuccess (''Logged in as: '' @ email u)]\<rparr>)) \<and>
   (\<not> (authenticated (session m) \<and> user (session m) \<noteq> None) \<longrightarrow>
      (\<forall>f. sidebar (svc\<lparr>memory_clear := f\<rparr>) wd m = sidebar svc wd m) \<and>
      (\<forall>v. MemoryClear v \<in> set (trace (snd (sidebar svc wd m))) \<longrightarrow> MemoryClear v \<in> set (trace m)) \<and>
      messages (session (snd (sidebar svc wd m))) = messages (session m))"
proof (intro conjI impI allI)
  assume a: "authenticated (session m) \<and> user (session m) = Some u \<and> clear_button wd"
  let ?m1 = "emit (StSuccess (''Logged in as: '' @ email u)) m"
  have sb: "sidebar svc wd m = clear_all_memories svc u ?m1"
    using a sidebar_authenticated by blast
  have w: "world ?m1 = world m" by (simp add: emit_def)
  have ok: "sidebar svc wd m =
           (Inl RerunSignal,
            m\<lparr>trace := trace m @ [StSuccess (''Logged in as: '' @ email u),
                                    MemoryClear (uid u),
                                    StSuccess ''All memories cleared!''],
              world := w',
              session := (session m)\<lparr>messages := []\<rparr>\<rparr>)"
    if "memory_clear svc (uid u) (world m) = (Inr x, w')" for x w'
    using that sb w clear_all_memories_ok [of svc u ?m1 x w'] by (simp add: emit_def)
  have bad: "sidebar svc wd m =
           (Inl (Raised e),
            m\<lparr>trace := trace m @ [StSuccess (''Logged in as: '' @ email u),
                                    MemoryClear (uid u)],
              world := w'\<rparr>)"
    if "memory_clear svc (uid u) (world m) = (Inl e, w')" for e w'
    using that sb w clear_all_memories_fails [of svc u ?m1 e w'] by (simp add: emit_def)
  obtain r w0 where c: "memory_clear svc (uid u) (world m) = (r, w0)"
    by (cases "memory_clear svc (uid u) (world m)") blast
  {
    fix x w'
    assume "memory_clear svc (uid u) (world m) = (Inr x, w')"
    then show "sidebar svc wd m =
           (Inl RerunSignal,
            m\<lparr>trace := trace m @ [StSuccess (''Logged in as: '' @ email u),
                                    MemoryClear (uid u),
                                    StSuccess ''All memories cleared!''],
              world := w',
              session := (session m)\<lparr>messages := []\<rparr>\<rparr>)"
      by (rule ok)
  }
  {
    fix e w'
    assume "memory_clear svc (uid u) (world m) = (Inl e, w')"
    then show "sidebar svc wd m =
           (Inl (Raised e),
            m\<lparr>trace := trace m @ [StSuccess (''Logged in as: '' @ email u),
                                    MemoryClear (uid u)],
              world := w'\<rparr>)"
      by (rule bad)
  }
  show "world (snd (sidebar svc wd m)) = snd (memory_clear svc (uid u) (world m))"
    using c ok [of _ w0] bad [of _ w0] by (cases r) simp_all
  show "authenticated (session (snd (sidebar svc wd m))) = authenticated (session m)"
    using c ok [of _ w0] bad [of _ w0] by (cases r) simp_all
  show "user (session (snd (sidebar svc wd m))) = user (session m)"
    using c ok [of _ w0] bad [of _ w0] by (cases r) simp_all
next
  assume "authenticated (session m) \<and> user (session m) = Some u \<and> \<not> clear_button wd"
  then show "sidebar svc wd m =
      (Inr (), m\<lparr>trace := trace m @ [StSuccess (''Logged in as: '' @ email u)]\<rparr>)"
    by (simp add: sidebar_def emit_def)
next
  fix f
  assume "\<not> (authenticated (session m) \<and> user (session m) \<noteq> None)"
  then show "sidebar (svc\<lparr>memory_clear := f\<rparr>) wd m = sidebar svc wd m"
    by (rule sidebar_ignores_memory_clear)
next
  fix v
  assume n: "\<not> (authenticated (session m) \<and> user (session m) \<noteq> None)"
    and v: "MemoryClear v \<in> set (trace (snd (sidebar svc wd m)))"
  have p: "sidebar svc wd m = (fst (sidebar svc wd m), snd (sidebar svc wd m))" by simp
  show "MemoryClear v \<in> set (trace m)" using sidebar_anonymous [OF n p] v by blast
next
  assume n: "\<not> (authenticated (session m) \<and> user (session m) \<noteq> None)"
  have p: "sidebar svc wd m = (fst (sidebar svc wd m), snd (sidebar svc wd m))" by simp
  show "messages (session (snd (sidebar svc wd m))) = messages (session m)"
    using sidebar_anonymous [OF n p] by blast
qed

text \<open>
  Claim C8, witness: the click in a session of the sample user holding one message, where
  \<open>clear\<close> returns; in a session of the second user, where it raises; and in an
  Anonymous session.
\<close>

theorem clear_memories_effect_witness:
  "authenticated (session (demo_machine (with_message alice_session) 0)) \<and>
   user (session (demo_machine (with_message alice_session) 0)) = Some alice \<and>
   clear_button (no_widgets\<lparr>clear_button := True\<rparr>) \<and>
   memory_clear clear_services (uid alice) 0 = (Inr (), 1) \<and>
   sidebar clear_services (no_widgets\<lparr>clear_button := True\<rparr>)
       (demo_machine (with_message alice_session) 0) =
     (Inl RerunSignal,
      (demo_machine (with_message alice_session) 0)
        \<lparr>trace := trace (demo_machine (with_message alice_session) 0) @
                    [StSuccess (''Logged in as: '' @ email alice), MemoryClear (uid alice),
                     StSuccess ''All memories cleared!''],
          world := 1,
          session := (session (demo_machine (with_message alice_session) 0))\<lparr>messages := []\<rparr>\<rparr>) \<and>
   memory_clear clear_services (uid bob) 0 = (Inl (OtherException ''store unavailable''), 1) \<and>
   fst (sidebar clear_services (no_widgets\<lparr>clear_button := True\<rparr>)
       (demo_machine (with_message (alice_session\<lparr>user := Some bob\<rparr>)) 0))
     = Inl (Raised (OtherException ''store unavailable'')) \<and>
   messages (session (snd (sidebar clear_services (no_widgets\<lparr>clear_button := True\<rparr>)
       (demo_machine (with_message (alice_session\<lparr>user := Some bob\<rparr>)) 0))))
     = [\<lparr>role = ''user'', content = ''hi''\<rparr>] \<and>
   world (snd (sidebar clear_services (no_widgets\<lparr>clear_button := True\<rparr>)
       (demo_machine (with_message (alice_session\<lparr>user := Some bob\<rparr>)) 0))) = 1 \<and>
   messages (session (snd (sidebar clear_services (no_widgets\<lparr>clear_button := True\<rparr>)
       (demo_machine (with_message initial_session) 0))))
     = [\<lparr>role = ''user'', content = ''hi''\<rparr>]"
proof -
  let ?m = "demo_machine (with_message alice_session) 0"
  let ?b = "demo_machine (with_message (alice_session\<lparr>user := Some bob\<rparr>)) 0"
  let ?n = "demo_machine (with_message initial_session) 0"
  let ?wd = "no_widgets\<lparr>clear_button := True\<rparr>"
  have h1: "authenticated (session ?m) \<and> user (session ?m) = Some alice \<and> clear_button ?wd"
    and h2: "authenticated (session ?b) \<and> user (session ?b) = Some bob \<and> clear_button ?wd"
    and h3: "\<not> (authenticated (session ?n) \<and> user (session ?n) \<noteq> None)"
    by (simp_all add: demo_state_simps with_message_def)
  have c1: "memory_clear clear_services (uid alice) (world ?m) = (Inr (), 1)"
    and c2: "memory_clear clear_services (uid bob) (world ?b)
        = (Inl (OtherException ''store unavailable''), 1)"
    and c1': "memory_clear clear_services (uid alice) 0 = (Inr (), 1)"
    and c2': "memory_clear clear_services (uid bob) 0
        = (Inl (OtherException ''store unavailable''), 1)"
    by (simp_all add: clear_services_def alice_def bob_def demo_machine_def)
  have mb: "messages (session ?b) = [\<lparr>role = ''user'', content = ''hi''\<rparr>]"
    and mn: "messages (session ?n) = [\<lparr>role = ''user'', content = ''hi''\<rparr>]"
    by (simp_all add: demo_machine_def with_message_def)
  from clear_memories_effect [of ?m alice ?wd clear_services]
    clear_memories_effect [of ?b bob ?wd clear_services]
    clear_memories_effect [of ?n alice ?wd clear_services]
    h1 h2 h3 c1 c2 c1' c2' mb mn
  show ?thesis by simp
qed

lemma failed_turn_msgs:
  "chat_input_handler svc model user_id (Some x) m = (Inl s, m') \<Longrightarrow>
   messages (session m') = messages (session m) @ [\<lparr>role = ''user'', content = x\<rparr>]"
  using cwm_session [of svc model x user_id "append_message \<lparr>role = ''user'', content = x\<rparr> m"]
  by (auto simp: chat_input_handler_def append_message_def Let_def split: if_splits prod.splits sum.splits)

lemma handler_no_system:
  assumes "chat_input_handler svc model user_id inp m = (r, m')"
    and "no_system_message (messages (session m))"
  shows "no_system_message (messages (session m'))"
proof (cases inp)
  case None
  then show ?thesis using assms by (simp add: chat_input_handler_def)
next
  case (Some x)
  show ?thesis
  proof (cases "x = []")
    case True
    then show ?thesis using assms Some by (simp add: chat_input_handler_def)
  next
    case False
    show ?thesis
    proof (cases r)
      case (Inl s)
      then show ?thesis
        using failed_turn_msgs [of svc model user_id x m s m'] assms Some
        by (simp add: no_system_message_def)
    next
      case (Inr u)
      then show ?thesis
        using handler_ok [of svc model user_id x m m'] assms Some False
        by (auto simp: no_system_message_def)
    qed
  qed
qed

lemma main_interface_no_system:
  "main_interface svc model wd m = (r, m') \<Longrightarrow> no_system_message (messages (session m)) \<Longrightarrow>
   no_system_message (messages (session m'))"
  by (auto simp: main_interface_def split: if_splits option.splits dest: handler_no_system)

lemma clear_all_memories_frame:
  "clear_all_memories svc u m = (r, m') \<Longrightarrow>
   (messages (session m') = [] \<or> messages (session m') = messages (session m)) \<and>
   memory_cached m' = memory_cached m"
  by (auto simp: clear_all_memories_def emit_def Let_def split: prod.splits sum.splits)

lemma sidebar_frame:
  assumes "sidebar svc wd m = (r, m')"
  shows "(messages (session m') = [] \<or> messages (session m') = messages (session m)) \<and>
     memory_cached m' = memory_cached m"
proof (cases "authenticated (session m) \<and> user (session m) \<noteq> None")
  case False
  then show ?thesis using sidebar_anonymous [OF False assms]
proof -
    have "memory_cached m' = memory_cached m"
    proof (cases "authenticated (session m)")
      case True
      then show ?thesis using False assms by (simp add: sidebar_def)
    next
      case a: False
      obtain r1 m1 where l: "login_tab svc wd m = (r1, m1)" by (cases "login_tab svc wd m") blast
      show ?thesis
      proof (cases r1)
        case (Inl s)
        then show ?thesis using a l assms login_tab_frame [OF l] by (simp add: sidebar_def)
      next
        case (Inr x)
        then have "signup_tab svc wd m1 = (r, m')" using a l assms by (simp add: sidebar_def)
        from signup_tab_frame [OF this] login_tab_frame [OF l] show ?thesis by simp
      qed
    qed
    then show ?thesis using sidebar_anonymous [OF False assms] by simp
  qed
next
  case True
  then obtain u where u: "user (session m) = Some u" by auto
  show ?thesis
  proof (cases "clear_button wd")
    case c: True
    from sidebar_authenticated [of m u wd svc] True u c assms
    have "clear_all_memories svc u (emit (StSuccess (''Logged in as: '' @ email u)) m) = (r, m')"
      by simp
    from clear_all_memories_frame [OF this] show ?thesis by (simp add: emit_def)
  next
    case False
    then show ?thesis using True u assms by (auto simp: sidebar_def emit_def Let_def)
  qed
qed

lemma get_openai_client_frame:
  "get_openai_client svc m = (r, m') \<Longrightarrow>
   session m' = session m \<and> trace m' = trace m \<and> memory_cached m' = memory_cached m"
  by (auto simp: get_openai_client_def Let_def split: if_splits prod.splits sum.splits)

lemma get_memory_frame:
  "get_memory svc env m = (r, m') \<Longrightarrow>
   session m' = session m \<and>
   (case r of
      Inl e \<Rightarrow> memory_cached m' = memory_cached m \<and>
               (trace m' = trace m \<or> trace m' = trace m @ [StError database_url_missing_report])
    | Inr x \<Rightarrow> memory_cached m' \<and> trace m' = trace m)"
  by (auto simp: get_memory_def get_memory_body_def database_url_missing_def emit_def Let_def
      split: if_splits prod.splits sum.splits option.splits)

lemma get_cached_resources_frame:
  assumes "get_cached_resources svc env m = (r, m')"
  shows "session m' = session m \<and>
   (case r of
      Inl e \<Rightarrow> memory_cached m' = memory_cached m \<and>
               (trace m' = trace m \<or> trace m' = trace m @ [StError database_url_missing_report])
    | Inr x \<Rightarrow> memory_cached m' \<and> trace m' = trace m)"
proof -
  obtain r1 m1 where o: "get_openai_client svc m = (r1, m1)"
    by (cases "get_openai_client svc m") blast
  show ?thesis
  proof (cases r1)
    case (Inl e)
    then show ?thesis using o assms get_openai_client_frame [OF o]
      by (auto simp: get_cached_resources_def)
  next
    case (Inr x)
    obtain r2 m2 where g: "get_memory svc env m1 = (r2, m2)"
      by (cases "get_memory svc env m1") blast
    show ?thesis using Inr o g assms get_openai_client_frame [OF o] get_memory_frame [OF g]
      by (cases r2) (auto simp: get_cached_resources_def)
  qed
qed

lemma script_no_system:
  assumes "script svc env wd m = (r, m')"
    and "no_system_message (messages (session m))"
  shows "no_system_message (messages (session m'))"
proof -
  obtain r0 w0 where c: "create_client svc (environ_get (SUPABASE_URL env) [])
      (environ_get (SUPABASE_KEY env) []) (world m) = (r0, w0)"
    by (cases "create_client svc (environ_get (SUPABASE_URL env) [])
      (environ_get (SUPABASE_KEY env) []) (world m)") blast
  let ?m0 = "m\<lparr>world := w0\<rparr>"
  show ?thesis
  proof (cases r0)
    case (Inl e)
    then show ?thesis using c assms by (auto simp: script_def)
  next
    case (Inr x)
    obtain r1 m1 where g: "get_cached_resources svc env ?m0 = (r1, m1)"
      by (cases "get_cached_resources svc env ?m0") blast
    have s1: "session m1 = session m" using get_cached_resources_frame [OF g] by simp
    show ?thesis
    proof (cases r1)
      case (Inl s)
      then show ?thesis using c Inr g s1 assms by (auto simp: script_def)
    next
      case i1: (Inr y)
      show ?thesis
      proof (cases "logout_requested (session m1)")
        case True
        then show ?thesis using c Inr g i1 s1 assms by (auto simp: script_def)
      next
        case False
        obtain r2 m2 where sb: "sidebar svc wd m1 = (r2, m2)"
          by (cases "sidebar svc wd m1") blast
        have n2: "no_system_message (messages (session m2))"
          using sidebar_frame [OF sb] s1 assms(2) by (auto simp: no_system_message_def)
        show ?thesis
        proof (cases r2)
          case (Inl s)
          then show ?thesis using c Inr g i1 False sb n2 assms(1) by (auto simp: script_def)
        next
          case i2: (Inr z)
          then have "main_interface svc (model_choice env) wd m2 = (r, m')"
            using c Inr g i1 False sb assms(1) by (auto simp: script_def)
          from main_interface_no_system [OF this n2] show ?thesis .
        qed
      qed
    qed
  qed
qed

lemma interaction_no_system:
  assumes "no_system_message (messages (session m))"
  shows "no_system_message (messages (session (snd (interaction svc env i m))))"
proof -
  let ?m0 = "if fst i then sign_out svc m else m"
  have "no_system_message (messages (session ?m0))"
    using assms sign_out_frame [of svc m] by simp
  moreover have "script svc env (snd i) ?m0 =
      (fst (interaction svc env i m), snd (interaction svc env i m))"
    by (simp add: interaction_def)
  ultimately show ?thesis using script_no_system by blast
qed

text \<open>
  Claim C5. Whatever the interactions, their order and their outcome (failed turns, reruns
  and stops included), a transcript without a message of role \<open>system\<close> stays so:
  the grounding message built for a completion request is never appended to
  \<open>st.session_state.messages\<close>.
\<close>

theorem transcript_never_holds_system_message:
  "(\<forall>x\<in>set (messages (session m)). role x \<noteq> ''system'') \<Longrightarrow>
   (\<forall>x\<in>set (messages (session (run svc env is m))). role x \<noteq> ''system'')"
proof (induction "is" arbitrary: m)
  case Nil
  then show ?case by simp
next
  case (Cons i "is")
  have "no_system_message (messages (session (snd (interaction svc env i m))))"
    using Cons.prems interaction_no_system [of m svc env i] by (simp add: no_system_message_def)
  then show ?case using Cons.IH [of "snd (interaction svc env i m)"]
    by (simp add: no_system_message_def)
qed


text \<open>
  Claim C5, witness: a sign-in, a turn and a logout of the sample user.
\<close>

theorem transcript_never_holds_system_message_witness:
  "map role (messages (session (run demo_services demo_env demo_interactions
       (demo_machine initial_session 1)))) = [''user'', ''assistant''] \<and>
   ''system'' \<notin> set (map role (messages (session (run demo_services demo_env demo_interactions
       (demo_machine initial_session 1)))))"
proof -
  let ?m = "demo_machine initial_session 1"
  have h: "\<forall>x\<in>set (messages (session ?m)). role x \<noteq> ''system''"
    by (simp add: demo_state_simps)
  have r: "map role (messages (session (run demo_services demo_env demo_interactions ?m)))
      = [''user'', ''assistant'']"
    by (simp add: demo_interactions_def interaction_def script_def get_cached_resources_def
        get_openai_client_def get_memory_def get_memory_body_def sidebar_def login_tab_def
        signup_tab_def model_choice_def environ_get_def demo_env_def
        turn_simps auth_simps demo_simps demo_state_simps)
  from transcript_never_holds_system_message [OF h, of demo_services demo_env demo_interactions] r
  show ?thesis by auto
qed

lemma handler_cached:
  assumes "chat_input_handler svc model user_id inp m = (r, m')"
  shows "memory_cached m' = memory_cached m"
proof (cases inp)
  case None
  then show ?thesis using assms by (simp add: chat_input_handler_def)
next
  case (Some x)
  show ?thesis
  proof (cases "x = []")
    case True
    then show ?thesis using assms Some by (simp add: chat_input_handler_def)
  next
    case False
    let ?m1 = "append_message \<lparr>role = ''user'', content = x\<rparr> m"
    obtain r2 m2 where c: "chat_with_memories svc model x user_id ?m1 = (r2, m2)"
      by (cases "chat_with_memories svc model x user_id ?m1") blast
    have "memory_cached m2 = memory_cached ?m1"
      using cwm_caches(2) [of svc model x user_id ?m1] c by simp
    then have m2: "memory_cached m2 = memory_cached m" by (simp add: append_message_def)
    show ?thesis using handler_unfold [OF False c] assms Some m2
      by (cases r2) (auto simp: append_message_def)
  qed
qed

lemma main_interface_cached:
  "main_interface svc model wd m = (r, m') \<Longrightarrow> memory_cached m' = memory_cached m"
  by (auto simp: main_interface_def split: if_splits option.splits dest: handler_cached)

lemma script_without_store:
  assumes "script svc env wd m = (r, m')" and "\<not> memory_cached m'"
  shows "session m' = session m \<and>
     (trace m' = trace m \<or> trace m' = trace m @ [StError database_url_missing_report]) \<and>
     (\<exists>s. r = Inl s)"
proof -
  obtain r0 w0 where c: "create_client svc (environ_get (SUPABASE_URL env) [])
      (environ_get (SUPABASE_KEY env) []) (world m) = (r0, w0)"
    by (cases "create_client svc (environ_get (SUPABASE_URL env) [])
      (environ_get (SUPABASE_KEY env) []) (world m)") blast
  let ?m0 = "m\<lparr>world := w0\<rparr>"
  show ?thesis
  proof (cases r0)
    case (Inl e)
    then show ?thesis using c assms by (auto simp: script_def)
  next
    case (Inr x)
    obtain r1 m1 where g: "get_cached_resources svc env ?m0 = (r1, m1)"
      by (cases "get_cached_resources svc env ?m0") blast
    note f = get_cached_resources_frame [OF g]
    show ?thesis
    proof (cases r1)
      case (Inl s)
      then show ?thesis using c Inr g f assms by (auto simp: script_def)
    next
      case i1: (Inr y)
      then have mc: "memory_cached m1" using f by simp
      show ?thesis
      proof (cases "logout_requested (session m1)")
        case True
        then show ?thesis using c Inr g i1 mc assms by (auto simp: script_def)
      next
        case False
        obtain r2 m2 where sb: "sidebar svc wd m1 = (r2, m2)"
          by (cases "sidebar svc wd m1") blast
        have c2: "memory_cached m2" using sidebar_frame [OF sb] mc by simp
        show ?thesis
        proof (cases r2)
          case (Inl s)
          then show ?thesis using c Inr g i1 False sb c2 assms by (auto simp: script_def)
        next
          case i2: (Inr z)
          then have "main_interface svc (model_choice env) wd m2 = (r, m')"
            using c Inr g i1 False sb assms(1) by (auto simp: script_def)
          from main_interface_cached [OF this] c2 assms(2) show ?thesis by simp
        qed
      qed
    qed
  qed
qed

lemma script_stops_without_database_url:
  assumes "create_client svc (environ_get (SUPABASE_URL env) [])
             (environ_get (SUPABASE_KEY env) []) (world m) = (Inr (), w0)"
    and "get_openai_client svc (m\<lparr>world := w0\<rparr>) = (Inr (), m1)"
    and "\<not> memory_cached m"
    and "DATABASE_URL env = None \<or> DATABASE_URL env = Some []"
  shows "get_memory svc env m1 =
       (Inl (ValueError ''DATABASE_URL must be set in your .env file.''),
        emit (StError database_url_missing_report) m1) \<and>
     script svc env wd m = (Inl StopSignal, emit (StError database_url_missing_report) m1) \<and>
     session m1 = session m \<and> trace m1 = trace m"
proof -
  note f = get_openai_client_frame [OF assms(2)]
  have nc: "\<not> memory_cached m1" using f assms(3) by simp
  have gm: "get_memory svc env m1 =
       (Inl (ValueError ''DATABASE_URL must be set in your .env file.''),
        emit (StError database_url_missing_report) m1)"
    using nc assms(4) by (auto simp: get_memory_def get_memory_body_def database_url_missing_def)
  have "get_cached_resources svc env (m\<lparr>world := w0\<rparr>) =
      (Inl StopSignal, emit (StError database_url_missing_report) m1)"
    using assms(2) gm by (simp add: get_cached_resources_def)
  then have "script svc env wd m = (Inl StopSignal, emit (StError database_url_missing_report) m1)"
    using assms(1) by (simp add: script_def)
  then show ?thesis using gm f by simp
qed

text \<open>
  Claim C10. When the store is not yet cached and \<open>DATABASE_URL\<close> is absent or empty,
  \<open>get_memory\<close> reports the missing configuration with \<open>st.error\<close> and raises
  \<open>ValueError\<close>, and the script stops there: nothing but that report is added to the
  trace and the session state is untouched. No run of the script that ends without a
  cached store has made any call to the store or to the completion service. And within a
  turn, a search that raises is followed by no completion request and no \<open>add\<close>,
  and a completion that raises is followed by no \<open>add\<close>.
\<close>

theorem startup_without_database_url:
  "(create_client svc (environ_get (SUPABASE_URL env) [])
       (environ_get (SUPABASE_KEY env) []) (world m) = (Inr (), w0) \<and>
    get_openai_client svc (m\<lparr>world := w0\<rparr>) = (Inr (), m1) \<and>
    \<not> memory_cached m \<and> (DATABASE_URL env = None \<or> DATABASE_URL env = Some []) \<longrightarrow>
      get_memory svc env m1 =
        (Inl (ValueError ''DATABASE_URL must be set in your .env file.''),
         emit (StError database_url_missing_report) m1) \<and>
      script svc env wd m = (Inl StopSignal, emit (StError database_url_missing_report) m1) \<and>
      session m1 = session m \<and> trace m1 = trace m) \<and>
   (\<not> memory_cached (snd (script svc env wd m)) \<longrightarrow>
      session (snd (script svc env wd m)) = session m \<and>
      (trace (snd (script svc env wd m)) = trace m \<or>
       trace (snd (script svc env wd m)) = trace m @ [StError database_url_missing_report]) \<and>
      (\<exists>s. fst (script svc env wd m) = Inl s)) \<and>
   (\<forall>e w1. memory_search svc msg user_id 3 (world m) = (Inl e, w1) \<longrightarrow>
      chat_with_memories svc model msg user_id m =
        (Inl (Raised e), m\<lparr>trace := trace m @ [MemorySearch msg user_id 3], world := w1\<rparr>)) \<and>
   (\<forall>results w1 e w2. memory_search svc msg user_id 3 (world m) = (Inr results, w1) \<longrightarrow>
      chat_create svc model (grounding_request results msg) w1 = (Inl e, w2) \<longrightarrow>
      chat_with_memories svc model msg user_id m =
        (Inl (Raised e),
         m\<lparr>trace := trace m @ [MemorySearch msg user_id 3,
                                 ChatCreate model (grounding_request results msg)],
           world := w2\<rparr>))"
proof (intro conjI impI allI)
  assume a: "create_client svc (environ_get (SUPABASE_URL env) [])
       (environ_get (SUPABASE_KEY env) []) (world m) = (Inr (), w0) \<and>
    get_openai_client svc (m\<lparr>world := w0\<rparr>) = (Inr (), m1) \<and>
    \<not> memory_cached m \<and> (DATABASE_URL env = None \<or> DATABASE_URL env = Some [])"
  then have s: "get_memory svc env m1 =
       (Inl (ValueError ''DATABASE_URL must be set in your .env file.''),
        emit (StError database_url_missing_report) m1) \<and>
     script svc env wd m = (Inl StopSignal, emit (StError database_url_missing_report) m1) \<and>
     session m1 = session m \<and> trace m1 = trace m"
    using script_stops_without_database_url [of svc env m w0 m1 wd] by blast
  from s show "get_memory svc env m1 =
       (Inl (ValueError ''DATABASE_URL must be set in your .env file.''),
        emit (StError database_url_missing_report) m1)" by blast
  from s show "script svc env wd m = (Inl StopSignal, emit (StError database_url_missing_report) m1)"
    by blast
  from s show "session m1 = session m" by blast
  from s show "trace m1 = trace m" by blast
next
  assume n: "\<not> memory_cached (snd (script svc env wd m))"
  have p: "script svc env wd m = (fst (script svc env wd m), snd (script svc env wd m))" by simp
  note w = script_without_store [OF p n]
  from w show "session (snd (script svc env wd m)) = session m" by blast
  from w show "trace (snd (script svc env wd m)) = trace m \<or>
       trace (snd (script svc env wd m)) = trace m @ [StError database_url_missing_report]" by blast
  from w show "\<exists>s. fst (script svc env wd m) = Inl s" by blast
next
  fix e w1 assume "memory_search svc msg user_id 3 (world m) = (Inl e, w1)"
  then show "chat_with_memories svc model msg user_id m =
        (Inl (Raised e), m\<lparr>trace := trace m @ [MemorySearch msg user_id 3], world := w1\<rparr>)"
    by (rule cwm_search_fails)
next
  fix results w1 e w2
  assume "memory_search svc msg user_id 3 (world m) = (Inr results, w1)"
    and "chat_create svc model (grounding_request results msg) w1 = (Inl e, w2)"
  then show "chat_with_memories svc model msg user_id m =
        (Inl (Raised e),
         m\<lparr>trace := trace m @ [MemorySearch msg user_id 3,
                                 ChatCreate model (grounding_request results msg)],
           world := w2\<rparr>)"
    by (rule cwm_create_fails)
qed

text \<open>
  Claim C10, witness: a first run of the script without \<open>DATABASE_URL\<close>.
\<close>

theorem startup_without_database_url_witness:
  "DATABASE_URL (demo_env\<lparr>DATABASE_URL := None\<rparr>) = None \<and>
   memory_cached (demo_machine alice_session 0) = False \<and>
   fst (script demo_services (demo_env\<lparr>DATABASE_URL := None\<rparr>)
          (no_widgets\<lparr>user_input := Some ''hi''\<rparr>) (demo_machine alice_session 0)) = Inl StopSignal \<and>
   trace (snd (script demo_services (demo_env\<lparr>DATABASE_URL := None\<rparr>)
          (no_widgets\<lparr>user_input := Some ''hi''\<rparr>) (demo_machine alice_session 0)))
     = [StError database_url_missing_report] \<and>
   session (snd (script demo_services (demo_env\<lparr>DATABASE_URL := None\<rparr>)
          (no_widgets\<lparr>user_input := Some ''hi''\<rparr>) (demo_machine alice_session 0)))
     = session (demo_machine alice_session 0) \<and>
   chat_with_memories demo_services ''bad'' ''hi'' ''u1'' (demo_machine alice_session 0) =
     (Inl (Raised (OtherException ''no such model'')),
      (demo_machine alice_session 0)
        \<lparr>trace := trace (demo_machine alice_session 0) @
                    [MemorySearch ''hi'' ''u1'' 3, ChatCreate ''bad'' (grounding_request [] ''hi'')],
          world := 0\<rparr>)"
proof -
  let ?m = "demo_machine alice_session 0"
  let ?env = "demo_env\<lparr>DATABASE_URL := None\<rparr>"
  let ?wd = "no_widgets\<lparr>user_input := Some ''hi''\<rparr>"
  let ?m1 = "?m\<lparr>world := 0, openai_cached := True\<rparr>"
  have h1: "create_client demo_services (environ_get (SUPABASE_URL ?env) [])
       (environ_get (SUPABASE_KEY ?env) []) (world ?m) = (Inr (), 0)"
    by (simp add: demo_simps demo_state_simps)
  have h2: "get_openai_client demo_services (?m\<lparr>world := 0\<rparr>) = (Inr (), ?m1)"
    by (simp add: get_openai_client_def demo_simps demo_state_simps)
  have h3: "\<not> memory_cached ?m" by (simp add: demo_state_simps)
  have h4: "DATABASE_URL ?env = None \<or> DATABASE_URL ?env = Some []" by simp
  have h5: "memory_search demo_services ''hi'' ''u1'' 3 (world ?m) = (Inr [], 0)"
    by (simp add: demo_simps demo_state_simps)
  have h6: "chat_create demo_services ''bad'' (grounding_request [] ''hi'') 0
      = (Inl (OtherException ''no such model''), 0)"
    by (simp add: demo_simps)
  from startup_without_database_url [of demo_services ?env ?m 0 ?m1 ?wd "''hi''" "''u1''" "''bad''"]
    h1 h2 h3 h4 h5 h6
  show ?thesis by (simp add: emit_def demo_state_simps)
qed

end
